theory Spec2Isabelle
  imports Main "HOL-Library.Word" "HOL-Library.List_Lexorder"
begin

unbundle bit_operations_syntax

section \<open>Python values\<close>

text \<open>
  A Python \<open>str\<close> is a sequence of Unicode code points, and \<open>len\<close> counts code points.
  A code point is a natural number; the literals of \<open>app.py\<close> are ASCII and are written
  \<open>lit ''...''\<close>.
\<close>

type_synonym pystr = "nat list"

type_synonym byte = "8 word"

definition lit :: "string \<Rightarrow> pystr" where
  "lit s = map of_char s"

text \<open>
  \<open>str.isspace\<close> for one code point: the characters that \<open>str.strip()\<close> without argument
  removes (Unicode White_Space plus the separators FS, GS, RS, US).
\<close>

definition py_isspace :: "nat \<Rightarrow> bool" where
  "py_isspace c \<longleftrightarrow>
     (0x09 \<le> c \<and> c \<le> 0x0D) \<or> (0x1C \<le> c \<and> c \<le> 0x20) \<or> c = 0x85 \<or> c = 0xA0 \<or>
     c = 0x1680 \<or> (0x2000 \<le> c \<and> c \<le> 0x200A) \<or> c = 0x2028 \<or> c = 0x2029 \<or>
     c = 0x202F \<or> c = 0x205F \<or> c = 0x3000"

definition strip :: "pystr \<Rightarrow> pystr" where
  "strip s = rev (dropWhile py_isspace (rev (dropWhile py_isspace s)))"

text \<open>
  The value \<open>request.get_json()\<close> returns: \<open>json.loads\<close> maps null, booleans, integers,
  floats, strings, arrays and objects to \<open>None\<close>, \<open>bool\<close>, \<open>int\<close>, \<open>float\<close>, \<open>str\<close>,
  \<open>list\<close> and \<open>dict\<close>. A float is kept as its IEEE 754 binary64 bit pattern. A \<open>dict\<close> is
  an association list (the keys of a parsed object are distinct).
\<close>

datatype json =
    JNull
  | JBool bool
  | JInt int
  | JFloat "64 word"
  | JStr pystr
  | JList "json list"
  | JObj "(pystr \<times> json) list"

text \<open>The exceptions that the handlers can meet.\<close>

datatype exn =
    AttributeError
  | UnicodeEncodeError
  | UnicodeDecodeError
  | ValueError
  | TypeError
  | IntegrityError
  | OperationalError
  | BadRequest

text \<open>Truth value of a Python object, as \<open>not x\<close> tests it.\<close>

fun truthy :: "json \<Rightarrow> bool" where
  "truthy JNull = False"
| "truthy (JBool b) = b"
| "truthy (JInt i) = (i \<noteq> 0)"
| "truthy (JFloat w) = (push_bit 1 w \<noteq> 0)"
| "truthy (JStr s) = (s \<noteq> [])"
| "truthy (JList xs) = (xs \<noteq> [])"
| "truthy (JObj kvs) = (kvs \<noteq> [])"

text \<open>\<open>data.get(key, default)\<close>: only a \<open>dict\<close> has the method.\<close>

fun py_get :: "json \<Rightarrow> pystr \<Rightarrow> json \<Rightarrow> exn + json" where
  "py_get (JObj kvs) k d = Inr (case map_of kvs k of None \<Rightarrow> d | Some v \<Rightarrow> v)"
| "py_get _ k d = Inl AttributeError"

text \<open>\<open>x.strip()\<close>: only a \<open>str\<close> has the method.\<close>

fun py_strip :: "json \<Rightarrow> exn + pystr" where
  "py_strip (JStr s) = Inr (strip s)"
| "py_strip _ = Inl AttributeError"

text \<open>
  \<open>s.encode("utf-8")\<close> on a \<open>str\<close>: a surrogate code point raises \<open>UnicodeEncodeError\<close>.
  (No \<open>str\<close> holds a code point above \<open>0x10FFFF\<close>; the model raises there too.)
\<close>

definition encode_cp :: "nat \<Rightarrow> exn + byte list" where
  "encode_cp c =
     (if c < 0x80 then Inr [of_nat c]
      else if c < 0x800 then Inr [of_nat (0xC0 + c div 64), of_nat (0x80 + c mod 64)]
      else if 0xD800 \<le> c \<and> c \<le> 0xDFFF then Inl UnicodeEncodeError
      else if c < 0x10000 then
        Inr [of_nat (0xE0 + c div 4096), of_nat (0x80 + c div 64 mod 64), of_nat (0x80 + c mod 64)]
      else if c \<le> 0x10FFFF then
        Inr [of_nat (0xF0 + c div 262144), of_nat (0x80 + c div 4096 mod 64),
             of_nat (0x80 + c div 64 mod 64), of_nat (0x80 + c mod 64)]
      else Inl UnicodeEncodeError)"

fun encode_utf8 :: "pystr \<Rightarrow> exn + byte list" where
  "encode_utf8 [] = Inr []"
| "encode_utf8 (c # cs) =
     (case encode_cp c of
        Inl e \<Rightarrow> Inl e
      | Inr bs \<Rightarrow> (case encode_utf8 cs of Inl e \<Rightarrow> Inl e | Inr rest \<Rightarrow> Inr (bs @ rest)))"

text \<open>\<open>x.encode("utf-8")\<close> on any object: only a \<open>str\<close> has the method.\<close>

fun py_encode :: "json \<Rightarrow> exn + byte list" where
  "py_encode (JStr s) = encode_utf8 s"
| "py_encode _ = Inl AttributeError"

section \<open>Responses\<close>

record response =
  status :: nat
  body :: json

text \<open>\<open>jsonify(d), code\<close>; without a code Flask answers 200.\<close>

definition jsonify :: "(string \<times> json) list \<Rightarrow> nat \<Rightarrow> response" where
  "jsonify d code = \<lparr>status = code, body = JObj (map (\<lambda>(k, v). (lit k, v)) d)\<rparr>"

text \<open>
  What a handler leaves behind: its result (a response, or the exception that escapes the
  handler), the database after the call and the calls made on storage connections.
\<close>

datatype stmt =
    Select_Users
  | Select_By_Username pystr
  | Insert_User pystr pystr

datatype db_event =
    Connect
  | Execute stmt
  | Exit_Commit
  | Exit_Rollback
  | Close

text \<open>
  Flask turns an exception that escapes a view into a response: an HTTP exception
  (\<open>BadRequest\<close>) keeps its own code, anything else is the generic 500.
\<close>

fun wire_status :: "exn + response \<Rightarrow> nat" where
  "wire_status (Inr r) = status r"
| "wire_status (Inl BadRequest) = 400"
| "wire_status (Inl _) = 500"

section \<open>Collaborators: UTF-8 decoding, bcrypt, SQLite\<close>

text \<open>
  \<open>b.decode("utf-8")\<close>: the strict decoder (no overlong forms, no surrogates, nothing
  above \<open>0x10FFFF\<close>). \<open>decode_cp\<close> reads one code point and returns the remaining bytes.
\<close>

definition is_cont :: "byte \<Rightarrow> bool" where
  "is_cont b \<longleftrightarrow> 0x80 \<le> b \<and> b \<le> 0xBF"

definition cont_bits :: "byte \<Rightarrow> nat" where
  "cont_bits b = unat b - 0x80"

fun decode_cp :: "byte list \<Rightarrow> (nat \<times> byte list) option" where
  "decode_cp [] = None"
| "decode_cp (b0 # bs) =
     (if b0 < 0x80 then Some (unat b0, bs)
      else if 0xC2 \<le> b0 \<and> b0 \<le> 0xDF then
        (case bs of
           b1 # r \<Rightarrow>
             if is_cont b1 then Some ((unat b0 - 0xC0) * 64 + cont_bits b1, r) else None
         | _ \<Rightarrow> None)
      else if 0xE0 \<le> b0 \<and> b0 \<le> 0xEF then
        (case bs of
           b1 # b2 # r \<Rightarrow>
             if is_cont b1 \<and> is_cont b2 \<and>
                (if b0 = 0xE0 then 0xA0 \<le> b1 else if b0 = 0xED then b1 \<le> 0x9F else True)
             then Some ((unat b0 - 0xE0) * 4096 + cont_bits b1 * 64 + cont_bits b2, r)
             else None
         | _ \<Rightarrow> None)
      else if 0xF0 \<le> b0 \<and> b0 \<le> 0xF4 then
        (case bs of
           b1 # b2 # b3 # r \<Rightarrow>
             if is_cont b1 \<and> is_cont b2 \<and> is_cont b3 \<and>
                (if b0 = 0xF0 then 0x90 \<le> b1 else if b0 = 0xF4 then b1 \<le> 0x8F else True)
             then Some ((unat b0 - 0xF0) * 262144 + cont_bits b1 * 4096 +
                        cont_bits b2 * 64 + cont_bits b3, r)
             else None
         | _ \<Rightarrow> None)
      else None)"

lemma decode_cp_shorter: "decode_cp bs = Some (c, r) \<Longrightarrow> length r < length bs"
  by (cases bs) (auto split: if_splits list.splits)

function decode_utf8 :: "byte list \<Rightarrow> exn + pystr" where
  "decode_utf8 bs =
     (if bs = [] then Inr []
      else (case decode_cp bs of
              None \<Rightarrow> Inl UnicodeDecodeError
            | Some (c, r) \<Rightarrow> (case decode_utf8 r of Inl e \<Rightarrow> Inl e | Inr cs \<Rightarrow> Inr (c # cs))))"
  by pat_completeness auto
termination
  by (relation "measure length") (auto dest: decode_cp_shorter)

declare decode_utf8.simps [simp del]

text \<open>
  The \<open>bcrypt\<close> package is a parameter of the handlers: \<open>hashpw password salt\<close> and
  \<open>checkpw password hashed\<close> work on bytes and may raise. The salt that
  \<open>bcrypt.gensalt()\<close> draws at random is an argument of \<open>create_user\<close>.
\<close>

record bcrypt =
  hashpw :: "byte list \<Rightarrow> byte list \<Rightarrow> exn + byte list"
  checkpw :: "byte list \<Rightarrow> byte list \<Rightarrow> exn + bool"

text \<open>
  The table that \<open>init_db\<close> creates: \<open>id INTEGER PRIMARY KEY AUTOINCREMENT\<close>,
  \<open>username TEXT UNIQUE NOT NULL\<close>, \<open>password TEXT NOT NULL\<close>.
\<close>

record user_row =
  row_id :: int
  row_username :: pystr
  row_password :: pystr

text \<open>
  The database file at \<open>DATABASE_PATH\<close>: it cannot be opened (\<open>sqlite3.connect\<close>
  raises), or it opens without a \<open>users\<close> table (\<open>init_db\<close> runs only under
  \<open>__main__\<close>), or it holds the rows of \<open>users\<close> in rowid order together with the
  largest rowid ever handed out (the \<open>sqlite_sequence\<close> entry of AUTOINCREMENT).
\<close>

datatype database =
    Unreachable
  | No_Table
  | Users "user_row list" int

text \<open>
  AUTOINCREMENT hands out the rowid after the largest one ever used. A rowid is a signed
  64-bit integer, the largest being \<open>2\<^sup>6\<^sup>3 - 1\<close>.
\<close>

definition next_rowid :: "user_row list \<Rightarrow> int \<Rightarrow> int" where
  "next_rowid rows seq = max seq (fold max (map row_id rows) 0) + 1"

definition max_rowid :: int where
  "max_rowid = 9223372036854775807"

text \<open>A \<open>str\<close> bound to a \<open>?\<close> parameter is passed to SQLite as UTF-8.\<close>

definition bind_text :: "pystr \<Rightarrow> exn + unit" where
  "bind_text s = (case encode_utf8 s of Inl e \<Rightarrow> Inl e | Inr _ \<Rightarrow> Inr ())"

text \<open>
  \<open>SELECT id, username FROM users\<close> with \<open>fetchall()\<close>. The statement has no
  \<open>ORDER BY\<close>. SQLite answers it from the index that the UNIQUE constraint on
  \<open>username\<close> creates, which holds both columns, so the rows come in the order of that
  index: by username under the BINARY collation. That collation compares the UTF-8
  bytes, which orders two strings as their code point sequences are ordered.
\<close>

definition select_users :: "database \<Rightarrow> exn + (int \<times> pystr) list" where
  "select_users db =
     (case db of
        Users rows seq \<Rightarrow>
          Inr (map (\<lambda>r. (row_id r, row_username r)) (sort_key row_username rows))
      | _ \<Rightarrow> Inl OperationalError)"

text \<open>\<open>SELECT id, username, password FROM users WHERE username = ?\<close> with \<open>fetchone()\<close>.\<close>

definition select_by_username :: "database \<Rightarrow> pystr \<Rightarrow> exn + user_row option" where
  "select_by_username db u =
     (case db of
        Users rows seq \<Rightarrow>
          (case bind_text u of
             Inl e \<Rightarrow> Inl e
           | Inr _ \<Rightarrow> Inr (find (\<lambda>r. row_username r = u) rows))
      | _ \<Rightarrow> Inl OperationalError)"

text \<open>
  \<open>INSERT INTO users (username, password) VALUES (?, ?)\<close>. Once the largest rowid has
  been used no new rowid can be made and the statement fails (\<open>SQLITE_FULL\<close>, an
  \<open>OperationalError\<close>); this comes before the constraints are tested. The UNIQUE
  constraint on \<open>username\<close> raises \<open>IntegrityError\<close>. A statement that fails leaves the
  table and the sequence as they were.
\<close>

definition insert_user :: "database \<Rightarrow> pystr \<Rightarrow> pystr \<Rightarrow> exn + database" where
  "insert_user db u h =
     (case db of
        Users rows seq \<Rightarrow>
          (case bind_text u of
             Inl e \<Rightarrow> Inl e
           | Inr _ \<Rightarrow>
               (case bind_text h of
                  Inl e \<Rightarrow> Inl e
                | Inr _ \<Rightarrow>
                    if max_rowid < next_rowid rows seq then Inl OperationalError
                    else if u \<in> set (map row_username rows) then Inl IntegrityError
                    else Inr (Users (rows @ [\<lparr>row_id = next_rowid rows seq,
                                              row_username = u, row_password = h\<rparr>])
                                    (next_rowid rows seq))))
      | _ \<Rightarrow> Inl OperationalError)"

text \<open>
  \<open>with get_db_connection() as conn: conn.execute(...)\<close>. \<open>get_db_connection\<close> calls
  \<open>sqlite3.connect\<close>; when that raises, no connection exists and the block is not entered.
  Otherwise the statement runs and the block is left through the context manager of
  \<open>sqlite3.Connection\<close>, which commits after a normal end and rolls back after an
  exception, and which does not close the connection. The argument \<open>r\<close> is what the
  statement \<open>s\<close> does on \<open>db\<close>.
\<close>

definition with_connection ::
  "database \<Rightarrow> stmt \<Rightarrow> exn + 'a \<Rightarrow> (exn + 'a) \<times> db_event list" where
  "with_connection db s r =
     (if db = Unreachable then (Inl OperationalError, [])
      else (r, [Connect, Execute s, if isl r then Exit_Rollback else Exit_Commit]))"


section \<open>The application\<close>

text \<open>
  The incoming request as the handlers see it: \<open>request.is_json\<close> is false, or the body
  does not parse (\<open>request.get_json()\<close> raises \<open>BadRequest\<close>), or it parses to a value.
\<close>

datatype request =
    Not_Json
  | Unparsable
  | Json json

record result =
  outcome :: "exn + response"
  store :: database
  trace :: "db_event list"

definition finish :: "exn + response \<Rightarrow> database \<Rightarrow> db_event list \<Rightarrow> result" where
  "finish r db evs = \<lparr>outcome = r, store = db, trace = evs\<rparr>"

text \<open>\<open>os.path.basename\<close> (POSIX): what follows the last slash.\<close>

definition basename :: "pystr \<Rightarrow> pystr" where
  "basename p = rev (takeWhile (\<lambda>c. c \<noteq> 0x2F) (rev p))"

text \<open>
  \<open>validate_username_password\<close>: the error message, or \<open>None\<close>. The arguments are Python
  objects; \<open>or\<close> evaluates \<open>len\<close> only on a \<open>str\<close>.
\<close>

definition validate_username_password :: "json \<Rightarrow> json \<Rightarrow> pystr option" where
  "validate_username_password username password =
     (if \<not> truthy username \<or>
         (case username of JStr s \<Rightarrow> length (strip s) < 3 | _ \<Rightarrow> True)
      then Some (lit ''Username must be at least 3 characters.'')
      else if \<not> truthy password \<or>
         (case password of JStr s \<Rightarrow> length s < 8 | _ \<Rightarrow> True)
      then Some (lit ''Password must be at least 8 characters.'')
      else None)"

text \<open>\<open>GET /health\<close>. The first argument is \<open>DATABASE_PATH\<close>.\<close>

definition health_check :: "pystr \<Rightarrow> database \<Rightarrow> result" where
  "health_check database_path db =
     finish (Inr (jsonify [(''status'', JStr (lit ''healthy'')),
                           (''database'', JStr (basename database_path))] 200)) db []"

text \<open>\<open>GET /users\<close>. Nothing catches an exception of the \<open>with\<close> block.\<close>

definition user_json :: "int \<times> pystr \<Rightarrow> json" where
  "user_json r = JObj [(lit ''id'', JInt (fst r)), (lit ''username'', JStr (snd r))]"

definition get_users :: "database \<Rightarrow> result" where
  "get_users db =
     (case with_connection db Select_Users (select_users db) of
        (Inl e, evs) \<Rightarrow> finish (Inl e) db evs
      | (Inr rows, evs) \<Rightarrow>
          finish (Inr (jsonify [(''users'', JList (map user_json rows))] 200)) db evs)"

text \<open>
  Lines 93 and 94 of \<open>create_user\<close>:
  \<open>bcrypt.hashpw(password.encode("utf-8"), bcrypt.gensalt()).decode("utf-8")\<close>.
\<close>

definition hash_password :: "bcrypt \<Rightarrow> byte list \<Rightarrow> json \<Rightarrow> exn + pystr" where
  "hash_password bc salt password =
     (case py_encode password of
        Inl e \<Rightarrow> Inl e
      | Inr pw \<Rightarrow> (case hashpw bc pw salt of Inl e \<Rightarrow> Inl e | Inr hashed \<Rightarrow> decode_utf8 hashed))"

text \<open>
  \<open>POST /users\<close>. The \<open>try\<close> around the \<open>with\<close> block turns \<open>IntegrityError\<close> into 409
  and any other exception into 500; exceptions raised before it escape the handler.
  The calls of \<open>logger\<close> do not change what the handler returns and are left out.
\<close>

definition create_user :: "bcrypt \<Rightarrow> byte list \<Rightarrow> database \<Rightarrow> request \<Rightarrow> result" where
  "create_user bc salt db req =
     (case req of
        Not_Json \<Rightarrow> finish (Inr (jsonify [(''error'', JStr (lit ''Request must be JSON''))] 400)) db []
      | Unparsable \<Rightarrow> finish (Inl BadRequest) db []
      | Json data \<Rightarrow>
          (case py_get data (lit ''username'') (JStr []) of
             Inl e \<Rightarrow> finish (Inl e) db []
           | Inr u \<Rightarrow>
          (case py_strip u of
             Inl e \<Rightarrow> finish (Inl e) db []
           | Inr username \<Rightarrow>
          (case py_get data (lit ''password'') (JStr []) of
             Inl e \<Rightarrow> finish (Inl e) db []
           | Inr password \<Rightarrow>
          (case validate_username_password (JStr username) password of
             Some error \<Rightarrow> finish (Inr (jsonify [(''error'', JStr error)] 400)) db []
           | None \<Rightarrow>
          (case hash_password bc salt password of
             Inl e \<Rightarrow> finish (Inl e) db []
           | Inr hashed_str \<Rightarrow>
          (case with_connection db (Insert_User username hashed_str)
                  (insert_user db username hashed_str) of
             (Inl e, evs) \<Rightarrow>
               if e = IntegrityError
               then finish (Inr (jsonify [(''error'', JStr (lit ''Username already exists''))] 409)) db evs
               else finish (Inr (jsonify [(''error'', JStr (lit ''Internal server error''))] 500)) db evs
           | (Inr db', evs) \<Rightarrow>
               finish (Inr (jsonify [(''message'', JStr (lit ''User created'')),
                                     (''username'', JStr username)] 201)) db' evs)))))))"

text \<open>
  Lines 139 and 140 of \<open>login\<close>: \<open>stored_hash = row["password"].encode("utf-8")\<close>, then
  \<open>bcrypt.checkpw(password.encode("utf-8"), stored_hash)\<close>.
\<close>

definition verify_password :: "bcrypt \<Rightarrow> json \<Rightarrow> user_row \<Rightarrow> exn + bool" where
  "verify_password bc password row =
     (case encode_utf8 (row_password row) of
        Inl e \<Rightarrow> Inl e
      | Inr stored_hash \<Rightarrow>
          (case py_encode password of Inl e \<Rightarrow> Inl e | Inr pw \<Rightarrow> checkpw bc pw stored_hash))"

text \<open>
  \<open>POST /login\<close>. The \<open>try\<close> covers the lookup only; \<open>encode\<close> and \<open>checkpw\<close> run
  outside it.
\<close>

definition invalid_credentials :: response where
  "invalid_credentials = jsonify [(''message'', JStr (lit ''Invalid credentials''))] 401"

definition login :: "bcrypt \<Rightarrow> database \<Rightarrow> request \<Rightarrow> result" where
  "login bc db req =
     (case req of
        Not_Json \<Rightarrow> finish (Inr (jsonify [(''error'', JStr (lit ''Request must be JSON''))] 400)) db []
      | Unparsable \<Rightarrow> finish (Inl BadRequest) db []
      | Json data \<Rightarrow>
          (case py_get data (lit ''username'') (JStr []) of
             Inl e \<Rightarrow> finish (Inl e) db []
           | Inr u \<Rightarrow>
          (case py_strip u of
             Inl e \<Rightarrow> finish (Inl e) db []
           | Inr username \<Rightarrow>
          (case py_get data (lit ''password'') (JStr []) of
             Inl e \<Rightarrow> finish (Inl e) db []
           | Inr password \<Rightarrow>
          if \<not> truthy (JStr username) \<or> \<not> truthy password
          then finish (Inr (jsonify [(''error'', JStr (lit ''Missing username or password''))] 400)) db []
          else
          (case with_connection db (Select_By_Username username)
                  (select_by_username db username) of
             (Inl e, evs) \<Rightarrow>
               finish (Inr (jsonify [(''error'', JStr (lit ''Internal server error''))] 500)) db evs
           | (Inr None, evs) \<Rightarrow> finish (Inr invalid_credentials) db evs
           | (Inr (Some row), evs) \<Rightarrow>
          (case verify_password bc password row of
             Inl e \<Rightarrow> finish (Inl e) db evs
           | Inr ok \<Rightarrow>
               if ok
               then finish (Inr (jsonify [(''message'', JStr (lit ''Login successful'')),
                                          (''user_id'', JInt (row_id row))] 200)) db evs
               else finish (Inr invalid_credentials) db evs))))))"

section \<open>Reading responses and traces\<close>

text \<open>The records under \<open>"users"\<close> in a response, and the keys of a record.\<close>

definition listed_users :: "exn + response \<Rightarrow> json list" where
  "listed_users r =
     (case r of
        Inl e \<Rightarrow> []
      | Inr resp \<Rightarrow>
          (case py_get (body resp) (lit ''users'') JNull of Inr (JList xs) \<Rightarrow> xs | _ \<Rightarrow> []))"

fun keys_of :: "json \<Rightarrow> pystr list" where
  "keys_of (JObj kvs) = map fst kvs"
| "keys_of _ = []"

text \<open>Looking a username up in the listed records.\<close>

definition records_for :: "pystr \<Rightarrow> json list \<Rightarrow> json list" where
  "records_for name recs =
     filter (\<lambda>rec. py_get rec (lit ''username'') JNull = Inr (JStr name)) recs"




section \<open>What the handlers rely on of bcrypt\<close>

text \<open>
  A hash is ASCII text (\<open>$2b$12$...\<close>), and \<open>checkpw\<close> accepts a password against a
  hash that \<open>hashpw\<close> made of it.
\<close>

definition bcrypt_spec :: "bcrypt \<Rightarrow> bool" where
  "bcrypt_spec bc \<longleftrightarrow>
     (\<forall>pw salt h. hashpw bc pw salt = Inr h \<longrightarrow>
        (\<forall>b \<in> set h. b < 0x80) \<and> checkpw bc pw h = Inr True)"

text \<open>
  A small instance of the interface on which the theorems below are exercised: the hash is
  the password followed by the salt, each byte cut to 7 bits, and checking compares the
  prefix.
\<close>

definition demo_bcrypt :: bcrypt where
  "demo_bcrypt =
     \<lparr>hashpw = (\<lambda>pw salt. Inr (map (\<lambda>b. b AND 0x7F) (pw @ salt))),
      checkpw = (\<lambda>pw hashed. Inr (take (length pw) hashed = map (\<lambda>b. b AND 0x7F) pw))\<rparr>"

section \<open>Basic facts\<close>

lemma lit_eq_iff [simp]: "lit a = lit b \<longleftrightarrow> a = b"
  by (simp add: lit_def inj_map_eq_map inj_of_char)

lemma length_lit [simp]: "length (lit s) = length s"
  by (simp add: lit_def)

lemma strip_strip [simp]: "strip (strip s) = strip s"
proof -
  define t where "t = dropWhile py_isspace s"
  define x where "x = rev (dropWhile py_isspace (rev t))"
  have t: "t = [] \<or> \<not> py_isspace (hd t)"
    unfolding t_def using hd_dropWhile by blast
  have "rev t = takeWhile py_isspace (rev t) @ dropWhile py_isspace (rev t)"
    by simp
  then have "t = x @ rev (takeWhile py_isspace (rev t))"
    unfolding x_def by (metis rev_append rev_rev_ident)
  then have "x = [] \<or> hd x = hd t"
    by (metis hd_append2)
  moreover have "x \<noteq> [] \<Longrightarrow> t \<noteq> []"
    unfolding x_def by auto
  ultimately have "x = [] \<or> \<not> py_isspace (hd x)"
    using t by metis
  then have "dropWhile py_isspace x = x"
    by (simp add: dropWhile_eq_self_iff)
  moreover have "rev (dropWhile py_isspace (rev x)) = x"
    unfolding x_def by (simp add: dropWhile_idem)
  ultimately show ?thesis
    unfolding strip_def x_def t_def by simp
qed

lemma py_get_dict: "py_get data k d = Inr v \<Longrightarrow> \<exists>kvs. data = JObj kvs"
  by (cases data) simp_all

section \<open>Registration: validation\<close>

text \<open>
  C3. A register request whose username, once trimmed, has fewer than 3 characters is
  answered with 400 and the username-length message, whatever the password field holds
  (the username rule is tested first); the database is unchanged and no storage
  connection is opened.
\<close>

theorem create_user_short_username:
  assumes "py_get data (lit ''username'') (JStr []) = Inr (JStr u)"
    and "length (strip u) < 3"
  shows "create_user bc salt db (Json data) =
           finish (Inr (jsonify [(''error'', JStr (lit ''Username must be at least 3 characters.''))] 400)) db []"
proof -
  obtain kvs where d: "data = JObj kvs"
    using assms(1) py_get_dict by blast
  show ?thesis
    using assms by (simp add: create_user_def d validate_username_password_def)
qed

theorem create_user_short_username_witness:
  "py_get (JObj [(lit ''username'', JStr (lit '' ab '')), (lit ''password'', JStr (lit ''short''))])
       (lit ''username'') (JStr []) = Inr (JStr (lit '' ab ''))
   \<and> length (strip (lit '' ab '')) < 3
   \<and> create_user demo_bcrypt [] (Users [] 0)
        (Json (JObj [(lit ''username'', JStr (lit '' ab '')), (lit ''password'', JStr (lit ''short''))])) =
      finish (Inr (jsonify [(''error'', JStr (lit ''Username must be at least 3 characters.''))] 400))
        (Users [] 0) []"
proof -
  have h1: "py_get (JObj [(lit ''username'', JStr (lit '' ab '')), (lit ''password'', JStr (lit ''short''))])
       (lit ''username'') (JStr []) = Inr (JStr (lit '' ab ''))"
    by simp
  have h2: "length (strip (lit '' ab '')) < 3"
    by (simp add: strip_def lit_def py_isspace_def)
  show ?thesis
    using h1 h2 create_user_short_username [OF h1 h2] by simp
qed

text \<open>
  C4. A register request with a valid username and a password string of fewer than 8
  characters, counted on the string as sent, is answered with 400 and the password-length
  message; the database is unchanged and no storage connection is opened.
\<close>

theorem create_user_short_password:
  assumes "py_get data (lit ''username'') (JStr []) = Inr (JStr u)"
    and "3 \<le> length (strip u)"
    and "py_get data (lit ''password'') (JStr []) = Inr (JStr p)"
    and "length p < 8"
  shows "create_user bc salt db (Json data) =
           finish (Inr (jsonify [(''error'', JStr (lit ''Password must be at least 8 characters.''))] 400)) db []"
proof -
  have "strip u \<noteq> []" using assms(2) by auto
  then show ?thesis
    using assms by (simp add: create_user_def validate_username_password_def)
qed

theorem create_user_short_password_witness:
  "py_get (JObj [(lit ''username'', JStr (lit ''alice123'')), (lit ''password'', JStr (lit '' 12345 ''))])
       (lit ''username'') (JStr []) = Inr (JStr (lit ''alice123''))
   \<and> 3 \<le> length (strip (lit ''alice123''))
   \<and> py_get (JObj [(lit ''username'', JStr (lit ''alice123'')), (lit ''password'', JStr (lit '' 12345 ''))])
       (lit ''password'') (JStr []) = Inr (JStr (lit '' 12345 ''))
   \<and> length (lit '' 12345 '') < 8
   \<and> create_user demo_bcrypt [] (Users [] 0)
        (Json (JObj [(lit ''username'', JStr (lit ''alice123'')), (lit ''password'', JStr (lit '' 12345 ''))])) =
      finish (Inr (jsonify [(''error'', JStr (lit ''Password must be at least 8 characters.''))] 400))
        (Users [] 0) []"
proof -
  have h1: "py_get (JObj [(lit ''username'', JStr (lit ''alice123'')), (lit ''password'', JStr (lit '' 12345 ''))])
       (lit ''username'') (JStr []) = Inr (JStr (lit ''alice123''))"
    by simp
  have h2: "3 \<le> length (strip (lit ''alice123''))"
    by (simp add: strip_def lit_def py_isspace_def)
  have h3: "py_get (JObj [(lit ''username'', JStr (lit ''alice123'')), (lit ''password'', JStr (lit '' 12345 ''))])
       (lit ''password'') (JStr []) = Inr (JStr (lit '' 12345 ''))"
    by simp
  have h4: "length (lit '' 12345 '') < 8"
    by simp
  show ?thesis
    using h1 h2 h3 h4 create_user_short_password [OF h1 h2 h3 h4] by simp
qed

text \<open>
  C9. When the username field of a register request holds anything but a string, the call
  of \<open>strip\<close> raises \<open>AttributeError\<close> before \<open>validate_username_password\<close> is reached:
  the exception escapes the handler, the caller gets the generic 500 and not the 400 of
  the validation rule, and storage is not touched. So the validation function only ever
  receives a string as username.
\<close>

theorem create_user_non_string_username:
  assumes "py_get data (lit ''username'') (JStr []) = Inr v"
    and "\<forall>s. v \<noteq> JStr s"
  shows "outcome (create_user bc salt db (Json data)) = Inl AttributeError
       \<and> wire_status (outcome (create_user bc salt db (Json data))) = 500
       \<and> store (create_user bc salt db (Json data)) = db
       \<and> trace (create_user bc salt db (Json data)) = []"
proof -
  have "py_strip v = Inl AttributeError"
    using assms(2) by (cases v) simp_all
  then show ?thesis
    using assms(1) by (simp add: create_user_def finish_def)
qed

theorem create_user_non_string_username_witness:
  "py_get (JObj [(lit ''username'', JInt 12345), (lit ''password'', JStr (lit ''correct-horse''))])
       (lit ''username'') (JStr []) = Inr (JInt 12345)
   \<and> (\<forall>s. JInt 12345 \<noteq> JStr s)
   \<and> outcome (create_user demo_bcrypt [] (Users [] 0)
        (Json (JObj [(lit ''username'', JInt 12345), (lit ''password'', JStr (lit ''correct-horse''))])))
       = Inl AttributeError
   \<and> wire_status (outcome (create_user demo_bcrypt [] (Users [] 0)
        (Json (JObj [(lit ''username'', JInt 12345), (lit ''password'', JStr (lit ''correct-horse''))]))))
       = 500"
proof -
  have h1: "py_get (JObj [(lit ''username'', JInt 12345), (lit ''password'', JStr (lit ''correct-horse''))])
       (lit ''username'') (JStr []) = Inr (JInt 12345)"
    by simp
  have h2: "\<forall>s. JInt 12345 \<noteq> JStr s"
    by simp
  show ?thesis
    using h1 h2 create_user_non_string_username [OF h1 h2] by simp
qed

section \<open>Login: presence check\<close>




section \<open>Health check\<close>

text \<open>
  C10. \<open>GET /health\<close> answers 200 with status "healthy" and the file name of the database
  path in every state of the database, reachable or not; it leaves the database as it is
  and opens no storage connection.
\<close>

theorem health_check_always_healthy:
  "outcome (health_check database_path db) =
     Inr \<lparr>status = 200,
          body = JObj [(lit ''status'', JStr (lit ''healthy'')),
                       (lit ''database'', JStr (basename database_path))]\<rparr>
   \<and> store (health_check database_path db) = db
   \<and> trace (health_check database_path db) = []"
  by (simp add: health_check_def finish_def jsonify_def)

section \<open>Listing users\<close>

lemma get_users_outcome:
  "outcome (get_users (Users rows seq)) =
     Inr (jsonify [(''users'', JList (map (\<lambda>r. user_json (row_id r, row_username r))
                                         (sort_key row_username rows)))] 200)"
  by (simp add: get_users_def with_connection_def select_users_def finish_def comp_def)

lemma listed_users_get_users:
  "listed_users (outcome (get_users (Users rows seq))) =
     map (\<lambda>r. user_json (row_id r, row_username r)) (sort_key row_username rows)"
  by (simp add: get_users_outcome listed_users_def jsonify_def)

lemma listed_users_get_users_failed:
  "db = Unreachable \<or> db = No_Table \<Longrightarrow> listed_users (outcome (get_users db)) = []"
  by (auto simp add: get_users_def with_connection_def select_users_def finish_def listed_users_def)

lemma insort_key_map_same_key:
  "(\<And>y. k (g y) = k y) \<Longrightarrow> insort_key k (g x) (map g ys) = map g (insort_key k x ys)"
  by (induction ys) simp_all

lemma sort_key_map_same_key:
  "(\<And>y. k (g y) = k y) \<Longrightarrow> sort_key k (map g xs) = map g (sort_key k xs)"
  by (induction xs) (simp_all add: insort_key_map_same_key)

theorem get_users_no_password:
  "(\<forall>rec \<in> set (listed_users (outcome (get_users db))).
      keys_of rec = [lit ''id'', lit ''username''] \<and> lit ''password'' \<notin> set (keys_of rec))
   \<and> outcome (get_users (Users rows seq)) =
       Inr \<lparr>status = 200,
            body = JObj [(lit ''users'', JList (listed_users (outcome (get_users (Users rows seq)))))]\<rparr>
   \<and> set (listed_users (outcome (get_users (Users rows seq)))) =
       (\<lambda>r. JObj [(lit ''id'', JInt (row_id r)), (lit ''username'', JStr (row_username r))]) ` set rows
   \<and> length (listed_users (outcome (get_users (Users rows seq)))) = length rows
   \<and> outcome (get_users (Users (map (\<lambda>r. r\<lparr>row_password := h r\<rparr>) rows) seq)) =
       outcome (get_users (Users rows seq))"
proof -
  have a: "\<forall>rec \<in> set (listed_users (outcome (get_users db))).
      keys_of rec = [lit ''id'', lit ''username''] \<and> lit ''password'' \<notin> set (keys_of rec)"
  proof (cases db)
    case (Users rows' seq')
    then show ?thesis
      by (auto simp add: listed_users_get_users user_json_def)
  qed (simp_all add: listed_users_get_users_failed)
  have b: "outcome (get_users (Users rows seq)) =
       Inr \<lparr>status = 200,
            body = JObj [(lit ''users'', JList (listed_users (outcome (get_users (Users rows seq)))))]\<rparr>"
    by (simp add: listed_users_get_users) (simp add: get_users_outcome jsonify_def)
  have c: "set (listed_users (outcome (get_users (Users rows seq)))) =
       (\<lambda>r. JObj [(lit ''id'', JInt (row_id r)), (lit ''username'', JStr (row_username r))]) ` set rows"
    by (simp add: listed_users_get_users user_json_def)
  have d: "length (listed_users (outcome (get_users (Users rows seq)))) = length rows"
    by (simp add: listed_users_get_users)
  have "sort_key row_username (map (\<lambda>r. r\<lparr>row_password := h r\<rparr>) rows) =
          map (\<lambda>r. r\<lparr>row_password := h r\<rparr>) (sort_key row_username rows)"
    by (rule sort_key_map_same_key) simp
  then have e: "outcome (get_users (Users (map (\<lambda>r. r\<lparr>row_password := h r\<rparr>) rows) seq)) =
       outcome (get_users (Users rows seq))"
    by (simp add: get_users_outcome comp_def)
  show ?thesis using a b c d e by blast
qed

lemma sort_three_users:
  "sort_key row_username
     [\<lparr>row_id = 1, row_username = lit ''zed'', row_password = lit ''$2b$12$abcdefgh''\<rparr>,
      \<lparr>row_id = 2, row_username = lit ''alice'', row_password = lit ''$2b$12$ijklmnop''\<rparr>,
      \<lparr>row_id = 3, row_username = lit ''Bob'', row_password = lit ''$2b$12$qrstuvwx''\<rparr>] =
     [\<lparr>row_id = 3, row_username = lit ''Bob'', row_password = lit ''$2b$12$qrstuvwx''\<rparr>,
      \<lparr>row_id = 2, row_username = lit ''alice'', row_password = lit ''$2b$12$ijklmnop''\<rparr>,
      \<lparr>row_id = 1, row_username = lit ''zed'', row_password = lit ''$2b$12$abcdefgh''\<rparr>]"
  by (simp add: lit_def)

theorem get_users_no_password_witness:
  "listed_users (outcome (get_users (Users
       [\<lparr>row_id = 1, row_username = lit ''zed'', row_password = lit ''$2b$12$abcdefgh''\<rparr>,
        \<lparr>row_id = 2, row_username = lit ''alice'', row_password = lit ''$2b$12$ijklmnop''\<rparr>,
        \<lparr>row_id = 3, row_username = lit ''Bob'', row_password = lit ''$2b$12$qrstuvwx''\<rparr>] 3))) =
     [JObj [(lit ''id'', JInt 3), (lit ''username'', JStr (lit ''Bob''))],
      JObj [(lit ''id'', JInt 2), (lit ''username'', JStr (lit ''alice''))],
      JObj [(lit ''id'', JInt 1), (lit ''username'', JStr (lit ''zed''))]]
   \<and> map keys_of (listed_users (outcome (get_users (Users
       [\<lparr>row_id = 1, row_username = lit ''zed'', row_password = lit ''$2b$12$abcdefgh''\<rparr>,
        \<lparr>row_id = 2, row_username = lit ''alice'', row_password = lit ''$2b$12$ijklmnop''\<rparr>,
        \<lparr>row_id = 3, row_username = lit ''Bob'', row_password = lit ''$2b$12$qrstuvwx''\<rparr>] 3)))) =
     [[lit ''id'', lit ''username''], [lit ''id'', lit ''username''], [lit ''id'', lit ''username'']]"
proof -
  let ?rows = "[\<lparr>row_id = 1, row_username = lit ''zed'', row_password = lit ''$2b$12$abcdefgh''\<rparr>,
        \<lparr>row_id = 2, row_username = lit ''alice'', row_password = lit ''$2b$12$ijklmnop''\<rparr>,
        \<lparr>row_id = 3, row_username = lit ''Bob'', row_password = lit ''$2b$12$qrstuvwx''\<rparr>]"
  have l: "listed_users (outcome (get_users (Users ?rows 3))) =
     [JObj [(lit ''id'', JInt 3), (lit ''username'', JStr (lit ''Bob''))],
      JObj [(lit ''id'', JInt 2), (lit ''username'', JStr (lit ''alice''))],
      JObj [(lit ''id'', JInt 1), (lit ''username'', JStr (lit ''zed''))]]"
    by (simp only: listed_users_get_users sort_three_users) (simp add: user_json_def)
  from get_users_no_password [of "Users ?rows 3"]
  have k: "\<forall>rec \<in> set (listed_users (outcome (get_users (Users ?rows 3)))).
             keys_of rec = [lit ''id'', lit ''username'']"
    by blast
  show ?thesis
    using k unfolding l by simp
qed

section \<open>Hashing\<close>

lemma byte_ascii_unat: "(b::byte) < 0x80 \<Longrightarrow> unat b < 128"
  by (simp add: word_less_nat_alt)

lemma ascii_decode: "\<forall>b \<in> set h. b < 0x80 \<Longrightarrow> decode_utf8 h = Inr (map unat h)"
proof (induction h)
  case Nil
  then show ?case by (simp add: decode_utf8.simps)
next
  case (Cons b h)
  then show ?case
    by (subst decode_utf8.simps) simp
qed

lemma ascii_encode: "\<forall>b \<in> set h. b < 0x80 \<Longrightarrow> encode_utf8 (map unat h) = Inr h"
proof (induction h)
  case Nil
  then show ?case by simp
next
  case (Cons b h)
  then show ?case
    by (simp add: encode_cp_def byte_ascii_unat)
qed

lemma find_append_last:
  "\<forall>x \<in> set xs. \<not> P x \<Longrightarrow> P y \<Longrightarrow> find P (xs @ [y]) = Some y"
  by (induction xs) simp_all

lemma demo_bcrypt_spec: "bcrypt_spec demo_bcrypt"
proof -
  have "(b::byte) AND 0x7F < 0x80" for b
  proof -
    have "b AND 0x7F \<le> 0x7F" by (rule word_and_le1)
    then show ?thesis by (simp add: word_le_nat_alt word_less_nat_alt)
  qed
  then show ?thesis
    by (auto simp add: bcrypt_spec_def demo_bcrypt_def)
qed

lemma hash_password_ascii:
  assumes "bcrypt_spec bc" and "hash_password bc salt (JStr p) = Inr hs"
  shows "\<exists>pw hb. encode_utf8 p = Inr pw \<and> hashpw bc pw salt = Inr hb \<and> hs = map unat hb
           \<and> (\<forall>b \<in> set hb. b < 0x80) \<and> checkpw bc pw hb = Inr True"
proof -
  obtain pw where pw: "encode_utf8 p = Inr pw"
    using assms(2) by (auto simp add: hash_password_def split: sum.splits)
  obtain hb where hb: "hashpw bc pw salt = Inr hb"
    using assms(2) pw by (auto simp add: hash_password_def split: sum.splits)
  have d: "decode_utf8 hb = Inr hs"
    using assms(2) pw hb by (simp add: hash_password_def)
  have a: "\<forall>b \<in> set hb. b < 0x80" and c: "checkpw bc pw hb = Inr True"
    using assms(1) hb by (auto simp add: bcrypt_spec_def)
  have "hs = map unat hb"
    using d ascii_decode [OF a] by simp
  then show ?thesis using pw hb a c by blast
qed

lemma demo_hashpw: "hashpw demo_bcrypt pw salt = Inr (map (\<lambda>b. b AND 0x7F) (pw @ salt))"
  by (simp add: demo_bcrypt_def)

lemma strip_alice: "strip (lit ''  alice123 '') = lit ''alice123''"
  by (simp add: strip_def lit_def py_isspace_def)

lemma strip_alice_trimmed: "strip (lit ''alice123'') = lit ''alice123''"
  by (simp add: strip_def lit_def py_isspace_def)

lemma encode_alice: "encode_utf8 (lit ''alice123'') = Inr (map of_char ''alice123'')"
  by (simp add: lit_def encode_cp_def)




section \<open>Storage connections\<close>











section \<open>Login: failures\<close>

text \<open>
  When the lookup finds no row, and when it finds one and the verification returns
  false, the answer is the same 401 with \<open>{"message": "Invalid credentials"}\<close>.
\<close>

lemma login_mismatch_same_as_unknown:
  assumes "py_get data1 (lit ''username'') (JStr []) = Inr (JStr u1)" and "strip u1 \<noteq> []"
    and "py_get data1 (lit ''password'') (JStr []) = Inr p1" and "truthy p1"
    and "select_by_username db1 (strip u1) = Inr None"
    and "py_get data2 (lit ''username'') (JStr []) = Inr (JStr u2)" and "strip u2 \<noteq> []"
    and "py_get data2 (lit ''password'') (JStr []) = Inr p2" and "truthy p2"
    and "select_by_username db2 (strip u2) = Inr (Some row)"
    and "verify_password bc p2 row = Inr False"
  shows "outcome (login bc db1 (Json data1)) = outcome (login bc db2 (Json data2))
       \<and> outcome (login bc db2 (Json data2)) =
           Inr \<lparr>status = 401, body = JObj [(lit ''message'', JStr (lit ''Invalid credentials''))]\<rparr>
       \<and> store (login bc db1 (Json data1)) = db1 \<and> store (login bc db2 (Json data2)) = db2"
proof -
  have r1: "db1 \<noteq> Unreachable" and r2: "db2 \<noteq> Unreachable"
    using assms(5,10) by (auto simp add: select_by_username_def)
  have a: "login bc db1 (Json data1) = finish (Inr invalid_credentials) db1
             [Connect, Execute (Select_By_Username (strip u1)), Exit_Commit]"
    using assms(1-5) r1 by (simp add: login_def with_connection_def)
  have b: "login bc db2 (Json data2) = finish (Inr invalid_credentials) db2
             [Connect, Execute (Select_By_Username (strip u2)), Exit_Commit]"
    using assms(6-11) r2 by (simp add: login_def with_connection_def)
  show ?thesis
    by (simp add: a b finish_def invalid_credentials_def jsonify_def)
qed

lemma encode_utf8_error: "encode_utf8 s = Inl e \<Longrightarrow> e = UnicodeEncodeError"
  by (induction s) (auto simp add: encode_cp_def split: if_splits sum.splits)

lemma py_encode_error: "py_encode p = Inl e \<Longrightarrow> e = AttributeError \<or> e = UnicodeEncodeError"
  by (cases p) (auto dest: encode_utf8_error)

text \<open>
  C2 fails on the code. Send the same password to an unknown and to a registered
  username, a password that is present but cannot be encoded: a value that is not a
  string (a number, \<open>true\<close>, a list), or a string with a lone surrogate. For the unknown
  username the answer is 401 "Invalid credentials". For the registered one the lookup
  finds the row, \<open>password.encode\<close> raises after the \<open>try\<close>, the exception escapes the
  handler and the caller gets the generic 500. The two runs differ in status code, so
  the response tells whether the username exists.
\<close>

theorem login_reveals_registered_username:
  assumes "py_get data1 (lit ''username'') (JStr []) = Inr (JStr u1)" and "strip u1 \<noteq> []"
    and "py_get data1 (lit ''password'') (JStr []) = Inr p"
    and "py_get data2 (lit ''username'') (JStr []) = Inr (JStr u2)" and "strip u2 \<noteq> []"
    and "py_get data2 (lit ''password'') (JStr []) = Inr p"
    and "truthy p" and "py_encode p = Inl e"
    and "select_by_username db (strip u1) = Inr None"
    and "select_by_username db (strip u2) = Inr (Some row)"
    and "encode_utf8 (row_password row) = Inr stored_hash"
  shows "outcome (login bc db (Json data1)) =
           Inr \<lparr>status = 401, body = JObj [(lit ''message'', JStr (lit ''Invalid credentials''))]\<rparr>
       \<and> outcome (login bc db (Json data2)) = Inl e
       \<and> wire_status (outcome (login bc db (Json data1))) = 401
       \<and> wire_status (outcome (login bc db (Json data2))) = 500"
proof -
  have r: "db \<noteq> Unreachable"
    using assms(9) by (auto simp add: select_by_username_def)
  have a: "outcome (login bc db (Json data1)) = Inr invalid_credentials"
    using assms(1-3,7,9) r by (simp add: login_def with_connection_def finish_def)
  have b: "outcome (login bc db (Json data2)) = Inl e"
    using assms(4-8,10,11) r
    by (simp add: login_def with_connection_def finish_def verify_password_def)
  have "e = AttributeError \<or> e = UnicodeEncodeError"
    using assms(8) by (rule py_encode_error)
  then have c: "wire_status (Inl e) = 500"
    by auto
  show ?thesis
    by (simp add: a b c invalid_credentials_def jsonify_def)
qed

theorem login_reveals_registered_username_witness:
  "outcome (login demo_bcrypt
       (Users [\<lparr>row_id = 1, row_username = lit ''alice123'',
                row_password = lit ''$2b$12$abcdefghijklmnopqrstuuABCDEFGHIJKLMNOPQRSTUVWXYZ01234''\<rparr>] 1)
       (Json (JObj [(lit ''username'', JStr (lit ''bob99'')), (lit ''password'', JInt 12345)]))) =
     Inr \<lparr>status = 401, body = JObj [(lit ''message'', JStr (lit ''Invalid credentials''))]\<rparr>
   \<and> outcome (login demo_bcrypt
       (Users [\<lparr>row_id = 1, row_username = lit ''alice123'',
                row_password = lit ''$2b$12$abcdefghijklmnopqrstuuABCDEFGHIJKLMNOPQRSTUVWXYZ01234''\<rparr>] 1)
       (Json (JObj [(lit ''username'', JStr (lit ''alice123'')), (lit ''password'', JInt 12345)]))) =
     Inl AttributeError
   \<and> wire_status (outcome (login demo_bcrypt
       (Users [\<lparr>row_id = 1, row_username = lit ''alice123'',
                row_password = lit ''$2b$12$abcdefghijklmnopqrstuuABCDEFGHIJKLMNOPQRSTUVWXYZ01234''\<rparr>] 1)
       (Json (JObj [(lit ''username'', JStr (lit ''bob99'')), (lit ''password'', JInt 12345)])))) = 401
   \<and> wire_status (outcome (login demo_bcrypt
       (Users [\<lparr>row_id = 1, row_username = lit ''alice123'',
                row_password = lit ''$2b$12$abcdefghijklmnopqrstuuABCDEFGHIJKLMNOPQRSTUVWXYZ01234''\<rparr>] 1)
       (Json (JObj [(lit ''username'', JStr (lit ''alice123'')), (lit ''password'', JInt 12345)])))) = 500"
proof -
  let ?row = "\<lparr>row_id = 1, row_username = lit ''alice123'',
                row_password = lit ''$2b$12$abcdefghijklmnopqrstuuABCDEFGHIJKLMNOPQRSTUVWXYZ01234''\<rparr>"
  let ?d1 = "JObj [(lit ''username'', JStr (lit ''bob99'')), (lit ''password'', JInt 12345)]"
  let ?d2 = "JObj [(lit ''username'', JStr (lit ''alice123'')), (lit ''password'', JInt 12345)]"
  have s1: "strip (lit ''bob99'') = lit ''bob99''"
    by (simp add: strip_def lit_def py_isspace_def)
  have h1: "py_get ?d1 (lit ''username'') (JStr []) = Inr (JStr (lit ''bob99''))" by simp
  have h2: "strip (lit ''bob99'') \<noteq> []" by (simp add: s1) (simp add: lit_def)
  have h3: "py_get ?d1 (lit ''password'') (JStr []) = Inr (JInt 12345)" by simp
  have h4: "py_get ?d2 (lit ''username'') (JStr []) = Inr (JStr (lit ''alice123''))" by simp
  have h5: "strip (lit ''alice123'') \<noteq> []" by (simp add: strip_alice_trimmed) (simp add: lit_def)
  have h6: "py_get ?d2 (lit ''password'') (JStr []) = Inr (JInt 12345)" by simp
  have h7: "truthy (JInt 12345)" by simp
  have h8: "py_encode (JInt 12345) = Inl AttributeError" by simp
  have h9: "select_by_username (Users [?row] 1) (strip (lit ''bob99'')) = Inr None"
    by (simp add: s1 select_by_username_def bind_text_def) (simp add: lit_def encode_cp_def)
  have h10: "select_by_username (Users [?row] 1) (strip (lit ''alice123'')) = Inr (Some ?row)"
    by (simp add: strip_alice_trimmed select_by_username_def bind_text_def encode_alice)
  have h11: "encode_utf8 (row_password ?row) =
      Inr (map of_char ''$2b$12$abcdefghijklmnopqrstuuABCDEFGHIJKLMNOPQRSTUVWXYZ01234'')"
    by (simp add: lit_def encode_cp_def)
  show ?thesis
    using login_reveals_registered_username [OF h1 h2 h3 h4 h5 h6 h7 h8 h9 h10 h11] by simp
qed

section \<open>Registration\<close>


lemma create_user_created:
  assumes "outcome (create_user bc salt db (Json data)) = Inr resp" and "status resp = 201"
    and "py_get data (lit ''username'') (JStr []) = Inr (JStr u)"
  shows "\<exists>p hs rows seq.
           py_get data (lit ''password'') (JStr []) = Inr (JStr p) \<and> 8 \<le> length p
         \<and> 3 \<le> length (strip u)
         \<and> hash_password bc salt (JStr p) = Inr hs
         \<and> db = Users rows seq
         \<and> strip u \<notin> set (map row_username rows)
         \<and> bind_text (strip u) = Inr ()
         \<and> next_rowid rows seq \<le> max_rowid
         \<and> store (create_user bc salt db (Json data)) =
             Users (rows @ [\<lparr>row_id = next_rowid rows seq, row_username = strip u, row_password = hs\<rparr>])
                   (next_rowid rows seq)"
proof -
  obtain kvs where d: "data = JObj kvs"
    using assms(3) py_get_dict by blast
  obtain pv where pv: "py_get data (lit ''password'') (JStr []) = Inr pv"
    by (simp add: d)
  have v: "validate_username_password (JStr (strip u)) pv = None"
    using assms(1,2,3) pv
    by (auto simp add: create_user_def finish_def jsonify_def split: option.splits)
  then obtain p where p: "pv = JStr p" "8 \<le> length p" "3 \<le> length (strip u)"
    by (cases pv) (auto simp add: validate_username_password_def split: if_splits)
  obtain hs where hs: "hash_password bc salt (JStr p) = Inr hs"
    using assms(1,2,3) pv v p(1)
    by (auto simp add: create_user_def finish_def split: sum.splits)
  have w: "\<exists>db' evs. with_connection db (Insert_User (strip u) hs) (insert_user db (strip u) hs)
             = (Inr db', evs) \<and> store (create_user bc salt db (Json data)) = db'"
    using assms(1,2,3) pv v p(1) hs
    by (auto simp add: create_user_def finish_def jsonify_def split: sum.splits prod.splits if_splits)
  then obtain db' where db': "insert_user db (strip u) hs = Inr db'"
    "store (create_user bc salt db (Json data)) = db'"
    by (auto simp add: with_connection_def split: if_splits)
  obtain rows seq where rs: "db = Users rows seq"
    using db'(1) by (cases db) (simp_all add: insert_user_def)
  have "bind_text (strip u) = Inr ()" "strip u \<notin> set (map row_username rows)"
    "next_rowid rows seq \<le> max_rowid"
    "db' = Users (rows @ [\<lparr>row_id = next_rowid rows seq, row_username = strip u, row_password = hs\<rparr>])
                   (next_rowid rows seq)"
    using db'(1) rs by (auto simp add: insert_user_def split: sum.splits if_splits)
  then show ?thesis
    using pv p hs rs db'(2) by blast
qed

lemma create_user_succeeds:
  assumes "bcrypt_spec bc"
    and "py_get data (lit ''username'') (JStr []) = Inr (JStr u)" and "3 \<le> length (strip u)"
    and "py_get data (lit ''password'') (JStr []) = Inr (JStr p)" and "8 \<le> length p"
    and "encode_utf8 (strip u) = Inr ub"
    and "encode_utf8 p = Inr pw" and "hashpw bc pw salt = Inr hb"
    and "next_rowid rows seq \<le> max_rowid"
    and "strip u \<notin> set (map row_username rows)"
  shows "create_user bc salt (Users rows seq) (Json data) =
           finish (Inr (jsonify [(''message'', JStr (lit ''User created'')),
                                 (''username'', JStr (strip u))] 201))
             (Users (rows @ [\<lparr>row_id = next_rowid rows seq, row_username = strip u,
                               row_password = map unat hb\<rparr>]) (next_rowid rows seq))
             [Connect, Execute (Insert_User (strip u) (map unat hb)), Exit_Commit]"
proof -
  have a: "\<forall>b \<in> set hb. b < 0x80"
    using assms(1,8) by (auto simp add: bcrypt_spec_def)
  have h: "hash_password bc salt (JStr p) = Inr (map unat hb)"
    using assms(7,8) ascii_decode [OF a] by (simp add: hash_password_def)
  have v: "validate_username_password (JStr (strip u)) (JStr p) = None"
    using assms(3,5) by (auto simp add: validate_username_password_def)
  have i: "insert_user (Users rows seq) (strip u) (map unat hb) =
             Inr (Users (rows @ [\<lparr>row_id = next_rowid rows seq, row_username = strip u,
                               row_password = map unat hb\<rparr>]) (next_rowid rows seq))"
    using assms(6,9,10) ascii_encode [OF a] by (simp add: insert_user_def bind_text_def)
  show ?thesis
    using assms(2,4) by (simp add: create_user_def v h i with_connection_def)
qed





section \<open>Registration followed by login\<close>

lemma login_success:
  assumes "py_get data (lit ''username'') (JStr []) = Inr (JStr u)" and "strip u \<noteq> []"
    and "py_get data (lit ''password'') (JStr []) = Inr p" and "truthy p"
    and "select_by_username db (strip u) = Inr (Some row)"
    and "verify_password bc p row = Inr True"
  shows "outcome (login bc db (Json data)) =
           Inr (jsonify [(''message'', JStr (lit ''Login successful'')),
                         (''user_id'', JInt (row_id row))] 200)"
proof -
  have "db \<noteq> Unreachable"
    using assms(5) by (auto simp add: select_by_username_def)
  then show ?thesis
    using assms by (simp add: login_def with_connection_def finish_def)
qed

lemma records_for_new:
  assumes "name \<notin> set (map row_username rows)"
  shows "records_for name (listed_users (outcome (get_users
           (Users (rows @ [\<lparr>row_id = i, row_username = name, row_password = hs\<rparr>]) seq)))) =
         [JObj [(lit ''id'', JInt i), (lit ''username'', JStr name)]]"
proof -
  let ?new = "\<lparr>row_id = i, row_username = name, row_password = hs\<rparr>"
  have p: "(\<lambda>rec. py_get rec (lit ''username'') JNull = Inr (JStr name)) \<circ>
             (\<lambda>r. user_json (row_id r, row_username r)) = (\<lambda>r. row_username r = name)"
    by (auto simp add: user_json_def fun_eq_iff)
  have "filter (\<lambda>r. row_username r = name) rows = []"
    using assms by (induction rows) auto
  then have f: "filter (\<lambda>r. row_username r = name) (rows @ [?new]) = [?new]"
    by simp
  have "records_for name (listed_users (outcome (get_users (Users (rows @ [?new]) seq)))) =
          map (\<lambda>r. user_json (row_id r, row_username r))
            (sort_key row_username (filter (\<lambda>r. row_username r = name) (rows @ [?new])))"
    by (simp only: listed_users_get_users records_for_def filter_map p filter_sort)
  then show ?thesis
    by (simp only: f) (simp add: user_json_def)
qed

text \<open>
  C1. When \<open>bcrypt\<close> accepts the hashes it makes, a registration answered with 201 is
  followed, on the database it left and with the same username and password, by a login
  answered with 200 "Login successful"; and its \<open>user_id\<close> is the \<open>id\<close> of the one
  record that \<open>GET /users\<close> then lists for the (trimmed) username.
\<close>

theorem register_then_login:
  assumes "bcrypt_spec bc"
    and "py_get data (lit ''username'') (JStr []) = Inr (JStr u)"
    and "outcome (create_user bc salt db (Json data)) = Inr resp" and "status resp = 201"
  shows "\<exists>i. outcome (login bc (store (create_user bc salt db (Json data))) (Json data)) =
               Inr \<lparr>status = 200, body = JObj [(lit ''message'', JStr (lit ''Login successful'')),
                                                (lit ''user_id'', JInt i)]\<rparr>
           \<and> records_for (strip u)
               (listed_users (outcome (get_users (store (create_user bc salt db (Json data)))))) =
               [JObj [(lit ''id'', JInt i), (lit ''username'', JStr (strip u))]]"
proof -
  obtain p hs rows seq where c:
    "py_get data (lit ''password'') (JStr []) = Inr (JStr p)" "8 \<le> length p"
    "3 \<le> length (strip u)"
    "hash_password bc salt (JStr p) = Inr hs"
    "db = Users rows seq"
    "strip u \<notin> set (map row_username rows)"
    "bind_text (strip u) = Inr ()"
    "next_rowid rows seq \<le> max_rowid"
    "store (create_user bc salt db (Json data)) =
       Users (rows @ [\<lparr>row_id = next_rowid rows seq, row_username = strip u, row_password = hs\<rparr>])
             (next_rowid rows seq)"
    using create_user_created [OF assms(3,4,2)] by blast
  let ?row = "\<lparr>row_id = next_rowid rows seq, row_username = strip u, row_password = hs\<rparr>"
  obtain pw hb where h: "encode_utf8 p = Inr pw" "hashpw bc pw salt = Inr hb" "hs = map unat hb"
    "\<forall>b \<in> set hb. b < 0x80" "checkpw bc pw hb = Inr True"
    using hash_password_ascii [OF assms(1) c(4)] by blast
  have sel: "select_by_username (store (create_user bc salt db (Json data))) (strip u) = Inr (Some ?row)"
  proof -
    have "\<forall>x \<in> set rows. \<not> row_username x = strip u"
      using c(6) by (metis image_eqI set_map)
    then have "find (\<lambda>r. row_username r = strip u) (rows @ [?row]) = Some ?row"
      by (rule find_append_last) simp
    then show ?thesis
      using c(7) by (simp add: c(9) select_by_username_def)
  qed
  have ver: "verify_password bc (JStr p) ?row = Inr True"
    using h ascii_encode [OF h(4)] by (simp add: verify_password_def)
  have ne: "strip u \<noteq> []" "truthy (JStr p)"
    using c(2,3) by auto
  have l: "outcome (login bc (store (create_user bc salt db (Json data))) (Json data)) =
           Inr (jsonify [(''message'', JStr (lit ''Login successful'')),
                         (''user_id'', JInt (row_id ?row))] 200)"
    using assms(2) ne(1) c(1) ne(2) sel ver by (rule login_success)
  have r: "records_for (strip u)
               (listed_users (outcome (get_users (store (create_user bc salt db (Json data)))))) =
               [JObj [(lit ''id'', JInt (next_rowid rows seq)), (lit ''username'', JStr (strip u))]]"
    unfolding c(9) using c(6) by (rule records_for_new)
  show ?thesis
    using l r by (simp add: jsonify_def)
qed

theorem register_then_login_witness:
  "outcome (login demo_bcrypt
      (store (create_user demo_bcrypt [0x73, 0x31] (Users [] 0)
        (Json (JObj [(lit ''username'', JStr (lit ''  alice123 '')),
                     (lit ''password'', JStr (lit ''correct-horse''))]))))
      (Json (JObj [(lit ''username'', JStr (lit ''  alice123 '')),
                   (lit ''password'', JStr (lit ''correct-horse''))]))) =
     Inr \<lparr>status = 200, body = JObj [(lit ''message'', JStr (lit ''Login successful'')),
                                      (lit ''user_id'', JInt 1)]\<rparr>
   \<and> records_for (lit ''alice123'')
       (listed_users (outcome (get_users
         (store (create_user demo_bcrypt [0x73, 0x31] (Users [] 0)
           (Json (JObj [(lit ''username'', JStr (lit ''  alice123 '')),
                        (lit ''password'', JStr (lit ''correct-horse''))]))))))) =
     [JObj [(lit ''id'', JInt 1), (lit ''username'', JStr (lit ''alice123''))]]"
proof -
  let ?d = "JObj [(lit ''username'', JStr (lit ''  alice123 '')),
                  (lit ''password'', JStr (lit ''correct-horse''))]"
  let ?r = "create_user demo_bcrypt [0x73, 0x31] (Users [] 0) (Json ?d)"
  have h1: "py_get ?d (lit ''username'') (JStr []) = Inr (JStr (lit ''  alice123 ''))" by simp
  have h2: "3 \<le> length (strip (lit ''  alice123 ''))" by (simp add: strip_alice)
  have h3: "py_get ?d (lit ''password'') (JStr []) = Inr (JStr (lit ''correct-horse''))" by simp
  have h4: "8 \<le> length (lit ''correct-horse'')" by simp
  have h5: "encode_utf8 (strip (lit ''  alice123 '')) = Inr (map of_char ''alice123'')"
    by (simp add: strip_alice) (simp add: lit_def encode_cp_def)
  have h6: "encode_utf8 (lit ''correct-horse'') = Inr (map of_char ''correct-horse'')"
    by (simp add: lit_def encode_cp_def)
  have h9: "strip (lit ''  alice123 '') \<notin> set (map row_username [])" by simp
  have h10: "next_rowid [] 0 \<le> max_rowid" by (simp add: next_rowid_def max_rowid_def)
  note created = create_user_succeeds [where salt = "[0x73, 0x31]",
      OF demo_bcrypt_spec h1 h2 h3 h4 h5 h6 demo_hashpw h10 h9]
  have o: "outcome ?r = Inr (jsonify [(''message'', JStr (lit ''User created'')),
                                 (''username'', JStr (strip (lit ''  alice123 '')))] 201)"
    by (simp add: created finish_def)
  have st: "status (jsonify [(''message'', JStr (lit ''User created'')),
                                 (''username'', JStr (strip (lit ''  alice123 '')))] 201) = 201"
    by (simp add: jsonify_def)
  have rec: "records_for (lit ''alice123'') (listed_users (outcome (get_users (store ?r)))) =
     [JObj [(lit ''id'', JInt 1), (lit ''username'', JStr (lit ''alice123''))]]"
    by (simp add: created finish_def strip_alice next_rowid_def listed_users_get_users
        records_for_def user_json_def)
  show ?thesis
    using register_then_login [OF demo_bcrypt_spec h1 o st] rec
    by (auto simp add: strip_alice)
qed

end
